theory Spec2Isabelle
  imports Complex_Main
begin

section \<open>Clustering metrics (sknetwork/clustering/metrics.py)\<close>

text \<open>
  The Python functions \<^verbatim>\<open>bimodularity\<close> and \<^verbatim>\<open>modularity\<close> are embedded as HOL
  functions returning \<open>error + real\<close>: every \<^verbatim>\<open>raise\<close> of the source, and every
  exception of the numpy/scipy calls it makes, is an \<open>Inl\<close> branch.

  Floating-point numbers are modelled as real numbers. Rounding, \<^verbatim>\<open>nan\<close> and
  \<^verbatim>\<open>inf\<close> are not modelled: numpy division by a zero total weight warns and
  yields \<^verbatim>\<open>nan\<close>/\<^verbatim>\<open>inf\<close> without raising, here it is HOL's total division. The
  error and invariance properties proved below depend on the control flow and on the
  handling of labels only, never on an arithmetic law; the closed formula for the value
  of \<^verbatim>\<open>bimodularity\<close> is an identity of real arithmetic.
\<close>

subsection \<open>Python exceptions\<close>

datatype error = TypeError | ValueError | KeyError | AttributeError

subsection \<open>Matrices and vectors\<close>

text \<open>
  A two-dimensional array, dense or sparse: its \<^verbatim>\<open>.shape\<close> and its entries.
  Entries outside the shape are never read. A one-dimensional float array is a list.
\<close>

record matrix =
  shape :: "nat \<times> nat"
  entry :: "nat \<Rightarrow> nat \<Rightarrow> real"

text \<open>\<^verbatim>\<open>np.ones(n)\<close> and \<^verbatim>\<open>np.arange(n)\<close>.\<close>

definition ones :: "nat \<Rightarrow> real list" where
  "ones n = replicate n 1"

definition arange :: "nat \<Rightarrow> int list" where
  "arange n = map int [0..<n]"

text \<open>\<^verbatim>\<open>A.data.sum()\<close> of a sparse matrix: the sum of the stored entries, that is of all entries.\<close>

definition data_sum :: "matrix \<Rightarrow> real" where
  "data_sum A = (\<Sum>i\<leftarrow>[0..<fst (shape A)]. \<Sum>j\<leftarrow>[0..<snd (shape A)]. entry A i j)"

text \<open>\<^verbatim>\<open>A.T\<close>.\<close>

definition mat_T :: "matrix \<Rightarrow> matrix" where
  "mat_T A = \<lparr>shape = (snd (shape A), fst (shape A)), entry = (\<lambda>i j. entry A j i)\<rparr>"

text \<open>
  \<^verbatim>\<open>A.dot(v)\<close> for a vector and \<^verbatim>\<open>A.dot(B)\<close> for a matrix, \<^verbatim>\<open>A.multiply(B)\<close>
  (entrywise) and \<^verbatim>\<open>A / s\<close>. At every call site of the source the operand shapes
  agree by construction (see \<open>coo_matrix_shape_given\<close> and \<open>coo_matrix_shape_inferred\<close>),
  so scipy's dimension-mismatch errors cannot arise and have no branch here.
\<close>

definition dot_vec :: "matrix \<Rightarrow> real list \<Rightarrow> real list" where
  "dot_vec A v = map (\<lambda>i. \<Sum>j\<leftarrow>[0..<snd (shape A)]. entry A i j * v ! j) [0..<fst (shape A)]"

definition dot_mat :: "matrix \<Rightarrow> matrix \<Rightarrow> matrix" where
  "dot_mat A B = \<lparr>shape = (fst (shape A), snd (shape B)),
                  entry = (\<lambda>i k. \<Sum>j\<leftarrow>[0..<snd (shape A)]. entry A i j * entry B j k)\<rparr>"

definition multiply :: "matrix \<Rightarrow> matrix \<Rightarrow> matrix" where
  "multiply A B = \<lparr>shape = shape A, entry = (\<lambda>i j. entry A i j * entry B i j)\<rparr>"

definition mat_div :: "matrix \<Rightarrow> real \<Rightarrow> matrix" where
  "mat_div A s = \<lparr>shape = shape A, entry = (\<lambda>i j. entry A i j / s)\<rparr>"

text \<open>\<^verbatim>\<open>u.dot(v)\<close> of two vectors and \<^verbatim>\<open>np.linalg.norm(v)\<close>.\<close>

definition vdot :: "real list \<Rightarrow> real list \<Rightarrow> real" where
  "vdot u v = (\<Sum>(x, y)\<leftarrow>zip u v. x * y)"

definition linalg_norm :: "real list \<Rightarrow> real" where
  "linalg_norm v = sqrt (\<Sum>x\<leftarrow>v. x * x)"

subsection \<open>The coordinate constructor of scipy's sparse matrices\<close>

text \<open>
  \<^verbatim>\<open>sparse.csr_matrix((data, (row, col)), shape=...)\<close>: entry \<open>(i, j)\<close> is the sum of
  the \<open>data\<close> values stored at that coordinate. scipy raises \<^verbatim>\<open>ValueError\<close> when
  the three arrays differ in length, when an index is negative or exceeds the shape, and,
  with no shape given, when the index arrays are empty (``cannot infer dimensions from
  zero sized index arrays''); otherwise a missing shape is inferred as
  \<open>(max row + 1, max col + 1)\<close>.
\<close>

definition coo_entry :: "real list \<Rightarrow> int list \<Rightarrow> int list \<Rightarrow> nat \<Rightarrow> nat \<Rightarrow> real" where
  "coo_entry data row col i j =
     (\<Sum>(d, r, c)\<leftarrow>zip data (zip row col). if r = int i \<and> c = int j then d else 0)"

definition index_ok :: "int list \<Rightarrow> nat \<Rightarrow> bool" where
  "index_ok idx n = list_all (\<lambda>x. 0 \<le> x \<and> x < int n) idx"

definition coo_matrix ::
  "real list \<Rightarrow> int list \<Rightarrow> int list \<Rightarrow> (nat \<times> nat) option \<Rightarrow> error + matrix" where
  "coo_matrix data row col shp =
     (if length row \<noteq> length data \<or> length col \<noteq> length data then Inl ValueError
      else case shp of
        Some (n, k) \<Rightarrow>
          if index_ok row n \<and> index_ok col k
          then Inr \<lparr>shape = (n, k), entry = coo_entry data row col\<rparr>
          else Inl ValueError
      | None \<Rightarrow>
          if data = [] then Inl ValueError
          else if index_ok row (nat (Max (set row) + 1)) \<and> index_ok col (nat (Max (set col) + 1))
          then Inr \<lparr>shape = (nat (Max (set row) + 1), nat (Max (set col) + 1)),
                    entry = coo_entry data row col\<rparr>
          else Inl ValueError)"

subsection \<open>\<^verbatim>\<open>np.unique(labels, return_inverse=True)\<close>\<close>

text \<open>
  The sorted distinct values of \<open>labels\<close>, and for each element of \<open>labels\<close> its
  position among them.
\<close>

fun index_of :: "'a list \<Rightarrow> 'a \<Rightarrow> nat" where
  "index_of [] x = 0"
| "index_of (y # ys) x = (if x = y then 0 else Suc (index_of ys x))"

definition np_unique :: "int list \<Rightarrow> int list \<times> int list" where
  "np_unique labels =
     (let u = sort (remdups labels) in (u, map (\<lambda>x. int (index_of u x)) labels))"

subsection \<open>The arguments of the Python functions\<close>

text \<open>
  Python is dynamically typed; the arguments are modelled by what the type tests of the
  source distinguish. For the adjacency: a \<^verbatim>\<open>scipy.sparse.csr_matrix\<close>, a sparse
  matrix of another format (\<^verbatim>\<open>sparse.isspmatrix\<close> holds; csc or coo, whose
  \<^verbatim>\<open>.data\<close> is the array of stored values as for csr), a two-dimensional
  \<^verbatim>\<open>numpy.ndarray\<close>, or any other object. For the partition: a \<^verbatim>\<open>dict\<close> with
  integer values, a one-dimensional integer \<^verbatim>\<open>numpy.ndarray\<close>, or any other object.
\<close>

datatype array_like = CsrMatrix matrix | SpMatrix matrix | NdArray matrix

datatype adjacency_arg = ArrayLike array_like | NotArrayLike

datatype partition_arg = Dict "nat \<rightharpoonup> int" | LabelArray "int list" | NotPartition

text \<open>The contents of an array-like object; \<^verbatim>\<open>sparse.csr_matrix(adjacency)\<close> keeps them.\<close>

fun csr_matrix :: "array_like \<Rightarrow> matrix" where
  "csr_matrix (CsrMatrix m) = m"
| "csr_matrix (SpMatrix m) = m"
| "csr_matrix (NdArray m) = m"

subsection \<open>\<^verbatim>\<open>bimodularity\<close>\<close>

text \<open>
  Lines 44--62 of the source. \<^verbatim>\<open>biadjacency.shape\<close> exists for all three kinds of
  array. \<^verbatim>\<open>biadjacency.data.sum()\<close> is the first statement that needs a sparse
  matrix: the \<^verbatim>\<open>.data\<close> of a \<^verbatim>\<open>numpy.ndarray\<close> is a buffer object without a
  \<^verbatim>\<open>sum\<close> method, so the call raises \<^verbatim>\<open>AttributeError\<close>.
\<close>

definition bimodularity :: "array_like \<Rightarrow> int list \<Rightarrow> int list \<Rightarrow> real \<Rightarrow> error + real" where
  "bimodularity biadjacency sample_labels feature_labels resolution =
     (case biadjacency of
        NdArray m \<Rightarrow> Inl AttributeError
      | _ \<Rightarrow>
        (let B = csr_matrix biadjacency;
            n_samples = fst (shape B);
            n_features = snd (shape B);
            one_samples = ones n_samples;
            one_features = ones n_features;
            total_weight = data_sum B;
            sample_weights = map (\<lambda>x. x / total_weight) (dot_vec B one_features);
            features_weights = map (\<lambda>x. x / total_weight) (dot_vec (mat_T B) one_samples);
            sample_labels = snd (np_unique sample_labels);
            feature_labels = snd (np_unique feature_labels);
            n_clusters = max (card (set sample_labels)) (card (set feature_labels))
        in (case coo_matrix one_samples (arange n_samples) sample_labels
                  (Some (n_samples, n_clusters)) of
             Inl e \<Rightarrow> Inl e
           | Inr sample_membership \<Rightarrow>
        (case coo_matrix one_features (arange n_features) feature_labels
                  (Some (n_features, n_clusters)) of
             Inl e \<Rightarrow> Inl e
           | Inr feature_membership \<Rightarrow>
        (let fit = data_sum (multiply sample_membership (dot_mat B feature_membership))
                    / total_weight;
            div' = vdot (dot_vec (mat_T sample_membership) sample_weights)
                       (dot_vec (mat_T feature_membership) features_weights)
        in Inr (fit - resolution * div'))))))"

subsection \<open>The formula of the docstring, with labels matched by rank\<close>

text \<open>
  The rank of a label among the distinct labels of its own side: the number of distinct
  labels of that side below it. The ranks of \<open>k\<close> distinct labels are \<open>0, ..., k - 1\<close>.
\<close>

definition label_rank :: "int list \<Rightarrow> int \<Rightarrow> nat" where
  "label_rank labels c = length (filter (\<lambda>c'. c' < c) (remdups labels))"

text \<open>
  The formula of the docstring of \<^verbatim>\<open>bimodularity\<close>,
  \<open>Q = \<Sum>i j. (B i j / w - \<gamma> * d i * f j) * \<delta> (c i) (c' j)\<close>, where \<open>w\<close> is the total
  weight, \<open>d i\<close> and \<open>f j\<close> are the row and column sums divided by \<open>w\<close>, and
  the Kronecker symbol compares the rank of the label of sample \<open>i\<close> among the sample
  labels with the rank of the label of feature \<open>j\<close> among the feature labels. It is
  written from the docstring and from the words of the property, not from the body of
  the function, to be compared with it.
\<close>

definition rank_delta_bimodularity :: "matrix \<Rightarrow> int list \<Rightarrow> int list \<Rightarrow> real \<Rightarrow> real" where
  "rank_delta_bimodularity B sample_labels feature_labels resolution =
     (let n = fst (shape B);
          p = snd (shape B);
          w = data_sum B;
          d = (\<lambda>i. (\<Sum>j\<leftarrow>[0..<p]. entry B i j) / w);
          f = (\<lambda>j. (\<Sum>i\<leftarrow>[0..<n]. entry B i j) / w)
      in \<Sum>i\<leftarrow>[0..<n]. \<Sum>j\<leftarrow>[0..<p].
           if label_rank sample_labels (sample_labels ! i)
                = label_rank feature_labels (feature_labels ! j)
           then entry B i j / w - resolution * (d i * f j) else 0)"

text \<open>
  The membership matrix of \<open>n\<close> nodes in \<open>k\<close> clusters, node \<open>i\<close> in cluster
  \<open>r i\<close>: what lines 54--57 build, as the proofs below show.
\<close>

definition membership_matrix :: "nat \<Rightarrow> nat \<Rightarrow> (nat \<Rightarrow> nat) \<Rightarrow> matrix" where
  "membership_matrix n k r =
     \<lparr>shape = (n, k), entry = (\<lambda>i c. if i < n \<and> r i = c then 1 else 0)\<rparr>"

subsection \<open>\<^verbatim>\<open>modularity\<close>\<close>

text \<open>
  Lines 105--110: the labels of the nodes \<open>0, ..., n_nodes - 1\<close>. A dictionary
  without one of these keys raises \<^verbatim>\<open>KeyError\<close>.
\<close>

definition get_labels :: "partition_arg \<Rightarrow> nat \<Rightarrow> error + int list" where
  "get_labels partition' n_nodes =
     (case partition' of
        Dict d \<Rightarrow> (case those (map d [0..<n_nodes]) of
                     None \<Rightarrow> Inl KeyError
                   | Some labels \<Rightarrow> Inr labels)
      | LabelArray a \<Rightarrow> Inr a
      | NotPartition \<Rightarrow> Inl TypeError)"

text \<open>Lines 115--122: the undirected branch.\<close>

definition undirected_modularity :: "matrix \<Rightarrow> real list \<Rightarrow> nat \<Rightarrow> int list \<Rightarrow> real \<Rightarrow> error + real" where
  "undirected_modularity norm_adj probs n_nodes labels resolution =
     (case coo_matrix (ones n_nodes) (arange n_nodes) labels None of
        Inl e \<Rightarrow> Inl e
      | Inr membership \<Rightarrow>
        let fit = sum_list (dot_vec (multiply membership (dot_mat norm_adj membership))
                                    (ones (snd (shape membership))));
            diversity = (linalg_norm (dot_vec (mat_T membership) probs))\<^sup>2
        in Inr (fit - resolution * diversity))"

text \<open>
  Lines 91--122. The order of the source is kept: type test of the adjacency, shape
  test, normalisation, type test of the partition, then the directed or the undirected
  computation. The directed branch passes the argument \<open>adjacency\<close> itself, not the
  converted \<open>adj_matrix\<close>.
\<close>

definition modularity :: "adjacency_arg \<Rightarrow> partition_arg \<Rightarrow> real \<Rightarrow> bool \<Rightarrow> error + real" where
  "modularity adjacency partition' resolution directed =
     (case adjacency of
        NotArrayLike \<Rightarrow> Inl TypeError
      | ArrayLike a \<Rightarrow>
        (let adj_matrix = csr_matrix a;
            n_nodes = fst (shape adj_matrix);
            m_nodes = snd (shape adj_matrix)
        in if n_nodes \<noteq> m_nodes then Inl ValueError
           else
             (let norm_adj = mat_div adj_matrix (data_sum adj_matrix);
                 probs = dot_vec norm_adj (ones n_nodes)
             in (case get_labels partition' n_nodes of
                  Inl e \<Rightarrow> Inl e
                | Inr labels \<Rightarrow>
                    if directed then bimodularity a labels labels resolution
                    else undirected_modularity norm_adj probs n_nodes labels resolution))))"

subsection \<open>Example inputs\<close>

text \<open>\<^verbatim>\<open>np.array(rows)\<close> for a list of rows of equal length.\<close>

definition of_rows :: "real list list \<Rightarrow> matrix" where
  "of_rows rs = \<lparr>shape = (length rs, case rs of [] \<Rightarrow> 0 | r # _ \<Rightarrow> length r),
                 entry = (\<lambda>i j. rs ! i ! j)\<rparr>"

section \<open>Force-directed embedding engine\<close>

text \<open>
  The class \<^verbatim>\<open>ForceAtlas2\<close> (\<^verbatim>\<open>sknetwork/embedding/force_atlas.py\<close>) is not among
  the source files: only its tests are (\<^verbatim>\<open>embedding/tests/test_force_atlas.py\<close>).
  Its constructor and its \<^verbatim>\<open>fit\<close> are modelled from sections 3, 4.3 and 7 of the
  specification.
\<close>

text \<open>
  Modelled from the spec: the errors of the embedding engine, which is not in the
  sources, after the taxonomy of section 7. (The tests expect Python's
  \<^verbatim>\<open>ValueError\<close> for both.)
\<close>

datatype engine_error = InputShapeError | ConfigurationConflictError

text \<open>
  A numpy array of any number of dimensions: its \<^verbatim>\<open>.shape\<close> and its entries by
  multi-index.
\<close>

record ndarray =
  nd_shape :: "nat list"
  nd_entry :: "nat list \<Rightarrow> real"

text \<open>\<^verbatim>\<open>np.ones(shape)\<close>.\<close>

definition np_ones :: "nat list \<Rightarrow> ndarray" where
  "np_ones shp = \<lparr>nd_shape = shp, nd_entry = (\<lambda>idx. 1)\<rparr>"

text \<open>
  Modelled from the spec: the attributes of a \<^verbatim>\<open>ForceAtlas2\<close> object, which is not
  in the sources: the output dimensionality and the enumerated options of section 4.3.
\<close>

record force_atlas2 =
  n_components :: nat
  lin_log :: bool
  no_hubs :: bool
  no_overlapping :: bool
  barnes_hut :: bool
  strong_gravity :: bool

text \<open>
  Modelled from the spec: the default arguments of the constructor, which is not in
  the sources. \<^verbatim>\<open>ForceAtlas2()\<close> in the tests yields a planar layout; every option
  of section 4.3 is off unless enabled.
\<close>

definition default_options :: force_atlas2 where
  "default_options = \<lparr>n_components = 2, lin_log = False, no_hubs = False,
                       no_overlapping = False, barnes_hut = False, strong_gravity = False\<rparr>"

text \<open>
  Modelled from the spec: the constructor \<^verbatim>\<open>ForceAtlas2(...)\<close>, which is not in the
  sources. Section 4.3: ``\<^verbatim>\<open>n_components\<close> (output dimensionality) must be 2 when
  \<^verbatim>\<open>barnes_hut\<close> is enabled -- raises a configuration error otherwise''.
\<close>

definition ForceAtlas2 :: "force_atlas2 \<Rightarrow> engine_error + force_atlas2" where
  "ForceAtlas2 options =
     (if barnes_hut options \<and> n_components options \<noteq> 2 then Inl ConfigurationConflictError
      else Inr options)"

text \<open>
  Modelled from the spec: the forces of \<^verbatim>\<open>ForceAtlas2.fit\<close>, which is not in the
  sources. The specification names the forces of one iteration and gives no formula for
  them, nor for the random generator of the default initialisation. They are parameters
  of the model: for the options, the graph and the current positions, the repulsive,
  attractive and gravitational force on a node along a coordinate (the multi-index
  \<open>[node, coordinate]\<close>), the speed factor of the node from the forces of this and
  of the previous iteration, and the values drawn by the seeded generator.
\<close>

record physics =
  repulsion :: "force_atlas2 \<Rightarrow> matrix \<Rightarrow> ndarray \<Rightarrow> nat list \<Rightarrow> real"
  attraction :: "force_atlas2 \<Rightarrow> matrix \<Rightarrow> ndarray \<Rightarrow> nat list \<Rightarrow> real"
  gravity :: "force_atlas2 \<Rightarrow> matrix \<Rightarrow> ndarray \<Rightarrow> nat list \<Rightarrow> real"
  speed :: "force_atlas2 \<Rightarrow> ndarray \<Rightarrow> ndarray \<Rightarrow> nat list \<Rightarrow> real"
  random_values :: "nat list \<Rightarrow> real"

text \<open>
  Modelled from the spec: the state of \<^verbatim>\<open>ForceAtlas2.fit\<close>, which is not in the
  sources. The force-simulation state of section 3: the node position table and the
  forces of the previous iteration.
\<close>

record sim_state =
  position :: ndarray
  forces_prev :: ndarray

text \<open>
  Modelled from the spec: one iteration of \<^verbatim>\<open>ForceAtlas2.fit\<close>, which is not in the
  sources. Section 4.3, steps (1) to (5): repulsion, attraction and gravity are
  combined, the per-node adaptive speed is applied, and the positions are updated in
  place by the resulting displacement.
\<close>

definition step :: "physics \<Rightarrow> force_atlas2 \<Rightarrow> matrix \<Rightarrow> sim_state \<Rightarrow> sim_state" where
  "step ph engine adjacency s =
     (let pos = position s;
          forces = \<lparr>nd_shape = nd_shape pos,
                    nd_entry = (\<lambda>idx. repulsion ph engine adjacency pos idx
                                      + attraction ph engine adjacency pos idx
                                      + gravity ph engine adjacency pos idx)\<rparr>;
          pos' = \<lparr>nd_shape = nd_shape pos,
                  nd_entry = (\<lambda>idx. nd_entry pos idx
                                    + speed ph engine forces (forces_prev s) idx
                                      * nd_entry forces idx)\<rparr>
      in \<lparr>position = pos', forces_prev = forces\<rparr>)"

text \<open>
  Modelled from the spec: the loop of \<^verbatim>\<open>ForceAtlas2.fit\<close>, which is not in the
  sources. Section 4.3: ``termination is purely by fixed iteration count
  \<^verbatim>\<open>n_iter\<close>''.
\<close>

primrec simulate :: "nat \<Rightarrow> physics \<Rightarrow> force_atlas2 \<Rightarrow> matrix \<Rightarrow> sim_state \<Rightarrow> sim_state" where
  "simulate 0 ph engine adjacency s = s"
| "simulate (Suc k) ph engine adjacency s = simulate k ph engine adjacency (step ph engine adjacency s)"

text \<open>
  Modelled from the spec: \<^verbatim>\<open>ForceAtlas2.fit\<close>, which is not in the sources. Section
  4.3: ``\<^verbatim>\<open>fit(graph, pos_init?, n_iter, options) -> positions\<close>'' and ``\<^verbatim>\<open>pos_init\<close>,
  if given, must have shape (n_nodes, n_components) -- raises on mismatch''; section 7:
  the error is raised before any computation proceeds. Without \<^verbatim>\<open>pos_init\<close> the
  positions start from the seeded random generator.
\<close>

definition fit ::
  "force_atlas2 \<Rightarrow> physics \<Rightarrow> matrix \<Rightarrow> ndarray option \<Rightarrow> nat \<Rightarrow> engine_error + ndarray" where
  "fit engine ph adjacency pos_init n_iter =
     (let n_nodes = fst (shape adjacency);
          zero_forces = \<lparr>nd_shape = [n_nodes, n_components engine], nd_entry = (\<lambda>idx. 0)\<rparr>
      in case pos_init of
           None \<Rightarrow>
             Inr (position (simulate n_iter ph engine adjacency
               \<lparr>position = \<lparr>nd_shape = [n_nodes, n_components engine],
                             nd_entry = random_values ph\<rparr>,
                forces_prev = zero_forces\<rparr>))
         | Some p \<Rightarrow>
             if nd_shape p \<noteq> [n_nodes, n_components engine] then Inl InputShapeError
             else Inr (position (simulate n_iter ph engine adjacency
               \<lparr>position = p, forces_prev = zero_forces\<rparr>)))"

text \<open>
  Modelled from the spec: \<^verbatim>\<open>ForceAtlas2.fit_transform\<close>, which is not in the sources:
  it fits and returns the position table.
\<close>

definition fit_transform ::
  "force_atlas2 \<Rightarrow> physics \<Rightarrow> matrix \<Rightarrow> ndarray option \<Rightarrow> nat \<Rightarrow> engine_error + ndarray" where
  "fit_transform engine ph adjacency pos_init n_iter = fit engine ph adjacency pos_init n_iter"

text \<open>A concrete physics for the examples: no force at all, unit speed, initial values 0.\<close>

definition still_physics :: physics where
  "still_physics = \<lparr>repulsion = (\<lambda>engine adjacency pos idx. 0),
                     attraction = (\<lambda>engine adjacency pos idx. 0),
                     gravity = (\<lambda>engine adjacency pos idx. 0),
                     speed = (\<lambda>engine forces previous idx. 1),
                     random_values = (\<lambda>idx. 0)\<rparr>"

section \<open>Properties of the clustering metrics\<close>

subsection \<open>Shapes of the membership matrices\<close>

lemma index_ok_Max:
  assumes "list_all (\<lambda>x. 0 \<le> x) idx"
  shows "index_ok idx (nat (Max (set idx) + 1))"
proof -
  have "0 \<le> x \<and> x < int (nat (Max (set idx) + 1))" if "x \<in> set idx" for x
  proof -
    from that have "x \<le> Max (set idx)" by simp
    moreover from assms that have "0 \<le> x" by (simp add: list_all_iff)
    ultimately show ?thesis by simp
  qed
  then show ?thesis by (simp add: index_ok_def list_all_iff)
qed

lemma Max_arange:
  assumes "0 < n"
  shows "Max (set (arange n)) = int n - 1"
proof (rule Max_eqI)
  show "finite (set (arange n))" by simp
  show "y \<le> int n - 1" if "y \<in> set (arange n)" for y
    using that by (auto simp: arange_def)
  from assms have "n - 1 \<in> {0..<n}" by simp
  then have "int (n - 1) \<in> int ` {0..<n}" by (rule imageI)
  moreover from assms have "int (n - 1) = int n - 1" by simp
  ultimately show "int n - 1 \<in> set (arange n)" by (simp add: arange_def)
qed

lemma coo_matrix_shape_given:
  "coo_matrix data row col (Some s) = Inr M \<Longrightarrow> shape M = s"
  by (cases s) (auto simp: coo_matrix_def split: if_splits)

lemma coo_matrix_shape_inferred:
  "coo_matrix (ones n) (arange n) labels None = Inr M \<Longrightarrow>
     shape M = (n, nat (Max (set labels) + 1))"
  by (cases "n = 0") (auto simp: coo_matrix_def ones_def Max_arange split: if_splits)

lemma membership_inferred:
  assumes "0 < n" and "length labels = n" and "list_all (\<lambda>c. 0 \<le> c) labels"
  shows "\<exists>M. coo_matrix (ones n) (arange n) labels None = Inr M"
proof -
  have "list_all (\<lambda>x. 0 \<le> x) (arange n)" by (simp add: arange_def list_all_iff)
  then have "index_ok (arange n) (nat (Max (set (arange n)) + 1))" by (rule index_ok_Max)
  moreover from assms(3) have "index_ok labels (nat (Max (set labels) + 1))" by (rule index_ok_Max)
  moreover from assms(1) have "ones n \<noteq> []" by (simp add: ones_def)
  ultimately show ?thesis using assms(2) by (simp add: coo_matrix_def ones_def arange_def)
qed

lemma undirected_modularity_returns:
  assumes "0 < n" and "length labels = n" and "list_all (\<lambda>c. 0 \<le> c) labels"
  shows "\<exists>q. undirected_modularity norm_adj probs n labels resolution = Inr q"
proof -
  from membership_inferred [OF assms] obtain M
    where "coo_matrix (ones n) (arange n) labels None = Inr M" ..
  then show ?thesis by (simp add: undirected_modularity_def Let_def)
qed

text \<open>Over the reals the squared norm is the sum of the squares.\<close>

lemma linalg_norm_square: "linalg_norm v * linalg_norm v = (\<Sum>x\<leftarrow>v. x * x)"
proof -
  have "0 \<le> (\<Sum>x\<leftarrow>v. x * x)" by (rule sum_list_nonneg) auto
  then show ?thesis by (simp add: linalg_norm_def)
qed

text \<open>The equations that evaluate the metrics on a concrete input.\<close>

lemmas metrics_eval =
  modularity_def get_labels_def undirected_modularity_def bimodularity_def Let_def
  ones_def arange_def data_sum_def dot_vec_def dot_mat_def multiply_def mat_div_def mat_T_def
  vdot_def np_unique_def coo_matrix_def coo_entry_def index_ok_def of_rows_def
  numeral_2_eq_2 linalg_norm_square

subsection \<open>Relabelling by \<^verbatim>\<open>np.unique\<close>\<close>

lemma index_of_map:
  "inj_on f (insert x (set ys)) \<Longrightarrow> index_of (map f ys) (f x) = index_of ys x"
proof (induction ys)
  case Nil
  then show ?case by simp
next
  case (Cons y ys)
  from Cons.prems have inj: "inj_on f (insert x (set ys))"
    by (rule inj_on_subset) auto
  from Cons.prems have "f x = f y \<longleftrightarrow> x = y"
    by (auto simp: inj_on_def)
  with Cons.IH [OF inj] show ?case by simp
qed

lemma index_of_nth: "distinct ys \<Longrightarrow> i < length ys \<Longrightarrow> index_of ys (ys ! i) = i"
proof (induction ys arbitrary: i)
  case Nil
  then show ?case by simp
next
  case (Cons y ys)
  then show ?case by (cases i) auto
qed

lemma index_of_less: "x \<in> set ys \<Longrightarrow> index_of ys x < length ys"
  by (induction ys) auto

lemma index_of_image:
  assumes "distinct ys"
  shows "index_of ys ` set ys = {0..<length ys}"
proof
  show "index_of ys ` set ys \<subseteq> {0..<length ys}" by (auto simp: index_of_less)
  show "{0..<length ys} \<subseteq> index_of ys ` set ys"
  proof
    fix i assume "i \<in> {0..<length ys}"
    then have "i < length ys" by simp
    with assms have "index_of ys (ys ! i) = i" by (rule index_of_nth)
    moreover from \<open>i < length ys\<close> have "ys ! i \<in> set ys" by simp
    ultimately show "i \<in> index_of ys ` set ys" by (metis imageI)
  qed
qed

text \<open>The inverse indices fill the range \<open>0, ..., k - 1\<close> for \<open>k\<close> distinct labels.\<close>

lemma np_unique_contiguous:
  "set (snd (np_unique labels)) = int ` {0..<card (set labels)}"
proof -
  let ?u = "sort (remdups labels)"
  have "set (snd (np_unique labels)) = int ` (index_of ?u ` set ?u)"
    by (simp add: np_unique_def Let_def image_image)
  also have "index_of ?u ` set ?u = {0..<length ?u}"
    by (rule index_of_image) simp
  also have "length ?u = card (set labels)"
    by (simp add: length_remdups_card_conv)
  finally show ?thesis .
qed

text \<open>
  An order-preserving injective map commutes with sorting the distinct labels: both
  sides are sorted, distinct and have the same elements.
\<close>

lemma sort_remdups_map:
  assumes mono: "mono_on (set xs) f" and inj: "inj_on f (set xs)"
  shows "sort (remdups (map f xs)) = map f (sort (remdups xs))"
proof (rule sorted_distinct_set_unique)
  show "sorted (sort (remdups (map f xs)))" by simp
  show "distinct (sort (remdups (map f xs)))" by simp
  have "sorted_wrt (\<lambda>x y. f x \<le> f y) (sort (remdups xs))"
  proof (rule sorted_wrt_mono_rel)
    show "sorted_wrt (\<le>) (sort (remdups xs))" by simp
  next
    fix x y assume "x \<in> set (sort (remdups xs))" "y \<in> set (sort (remdups xs))" "x \<le> y"
    then show "f x \<le> f y" using mono by (auto dest: mono_onD)
  qed
  then show "sorted (map f (sort (remdups xs)))" by (simp add: sorted_map)
  show "distinct (map f (sort (remdups xs)))" using inj by (simp add: distinct_map)
  show "set (sort (remdups (map f xs))) = set (map f (sort (remdups xs)))" by simp
qed

lemma np_unique_relabel:
  assumes mono: "mono_on (set xs) f" and inj: "inj_on f (set xs)"
  shows "snd (np_unique (map f xs)) = snd (np_unique xs)"
proof -
  have "index_of (map f (sort (remdups xs))) (f x) = index_of (sort (remdups xs)) x"
    if "x \<in> set xs" for x
  proof (rule index_of_map)
    from that have "insert x (set (sort (remdups xs))) = set xs" by auto
    with inj show "inj_on f (insert x (set (sort (remdups xs))))" by simp
  qed
  then show ?thesis
    by (simp add: np_unique_def Let_def sort_remdups_map [OF mono inj] comp_def)
qed

subsection \<open>The relabelled labels are the ranks\<close>

lemma index_of_sorted:
  "sorted u \<Longrightarrow> distinct u \<Longrightarrow> x \<in> set u \<Longrightarrow>
     index_of u x = length (filter (\<lambda>y. y < x) u)"
proof (induction u)
  case Nil
  then show ?case by simp
next
  case (Cons y ys)
  show ?case
  proof (cases "x = y")
    case True
    from Cons.prems have "\<forall>z\<in>set ys. \<not> z < y" by auto
    then have "filter (\<lambda>z. z < y) ys = []" by (simp add: filter_empty_conv)
    with True show ?thesis by simp
  next
    case False
    with Cons.prems have "x \<in> set ys" and "y < x" by auto
    moreover from Cons.prems have "sorted ys" "distinct ys" by auto
    ultimately show ?thesis using Cons.IH False by simp
  qed
qed

lemma index_of_label_rank:
  fixes x :: int
  assumes "x \<in> set labels"
  shows "index_of (sort (remdups labels)) x = label_rank labels x"
proof -
  have "index_of (sort (remdups labels)) x
          = length (filter (\<lambda>y. y < x) (sort (remdups labels)))"
    using assms by (intro index_of_sorted) simp_all
  also have "\<dots> = length (filter (\<lambda>y. y < x) (remdups labels))"
    by (simp add: filter_sort)
  finally show ?thesis by (simp add: label_rank_def)
qed

lemma np_unique_label_rank:
  "snd (np_unique labels) = map (\<lambda>c. int (label_rank labels c)) labels"
  by (simp add: np_unique_def Let_def index_of_label_rank)

lemma label_rank_less:
  assumes "c \<in> set labels"
  shows "label_rank labels c < card (set labels)"
proof -
  from assms have "index_of (sort (remdups labels)) c < length (sort (remdups labels))"
    by (intro index_of_less) simp
  then show ?thesis using assms by (simp add: index_of_label_rank length_remdups_card_conv)
qed

lemma label_rank_contiguous:
  "label_rank labels ` set labels = {0..<card (set labels)}"
proof -
  have "int ` (label_rank labels ` set labels) = set (snd (np_unique labels))"
    by (simp add: np_unique_label_rank image_image)
  also have "\<dots> = int ` {0..<card (set labels)}"
    by (rule np_unique_contiguous)
  finally show ?thesis by (simp add: inj_image_eq_iff)
qed

lemma card_np_unique: "card (set (snd (np_unique labels))) = card (set labels)"
  by (simp add: np_unique_contiguous card_image)

lemma index_ok_np_unique:
  assumes "card (set labels) \<le> k"
  shows "index_ok (snd (np_unique labels)) k"
  using assms by (auto simp: index_ok_def list_all_iff np_unique_contiguous)

subsection \<open>The membership matrices of \<^verbatim>\<open>bimodularity\<close>\<close>

lemma sum_list_upt: "(\<Sum>i\<leftarrow>[0..<n]. f i) = (\<Sum>i<n. f i)" for f :: "nat \<Rightarrow> real"
  by (simp add: interv_sum_list_conv_sum_set_nat atLeast0LessThan)

lemma length_ones: "length (ones n) = n"
  by (simp add: ones_def)

lemma length_arange: "length (arange n) = n"
  by (simp add: arange_def)

lemma length_dot_vec: "length (dot_vec B v) = fst (shape B)"
  by (simp add: dot_vec_def)

lemma index_ok_arange: "index_ok (arange n) n"
  by (simp add: index_ok_def arange_def list_all_iff)

lemma zip3_nth:
  assumes "length ys = n"
  shows "zip (ones n) (zip (arange n) ys) = map (\<lambda>t. (1, int t, ys ! t)) [0..<n]"
  using assms by (intro nth_equalityI) (simp_all add: ones_def arange_def)

lemma membership_entry:
  assumes "length ys = n"
  shows "coo_entry (ones n) (arange n) ys i c = (if i < n \<and> ys ! i = int c then 1 else 0)"
proof -
  have "coo_entry (ones n) (arange n) ys i c
          = (\<Sum>t<n. if t = i \<and> ys ! t = int c then 1 else 0)"
    by (simp add: coo_entry_def zip3_nth [OF assms] comp_def sum_list_upt)
  also have "\<dots> = (\<Sum>t<n. if t = i then (if ys ! i = int c then 1 else 0) else 0)"
    by (intro sum.cong) auto
  also have "\<dots> = (if i < n \<and> ys ! i = int c then 1 else 0)"
    by simp
  finally show ?thesis .
qed

lemma membership_given:
  assumes "length labels = n" and "card (set labels) \<le> k"
  shows "coo_matrix (ones n) (arange n) (snd (np_unique labels)) (Some (n, k))
           = Inr (membership_matrix n k (\<lambda>i. label_rank labels (labels ! i)))"
proof -
  have len: "length (snd (np_unique labels)) = n"
    using assms(1) by (simp add: np_unique_def Let_def)
  have "coo_entry (ones n) (arange n) (snd (np_unique labels)) i c
          = (if i < n \<and> label_rank labels (labels ! i) = c then 1 else 0)" for i c
  proof -
    have "i < n \<Longrightarrow> snd (np_unique labels) ! i = int (label_rank labels (labels ! i))"
      using assms(1) by (simp add: np_unique_label_rank)
    then show ?thesis
      unfolding membership_entry [OF len] by auto
  qed
  then have "coo_entry (ones n) (arange n) (snd (np_unique labels))
          = (\<lambda>i c. if i < n \<and> label_rank labels (labels ! i) = c then 1 else 0)"
    by (intro ext)
  then show ?thesis
    using len index_ok_np_unique [OF assms(2)]
    by (simp add: coo_matrix_def membership_matrix_def index_ok_arange length_ones length_arange)
qed

subsection \<open>The value of \<^verbatim>\<open>bimodularity\<close>\<close>

lemma delta_sum:
  fixes g :: "nat \<Rightarrow> real"
  assumes "a < k"
  shows "(\<Sum>c<k. (if a = c then x else 0) * g c) = x * g a"
proof -
  have "(\<Sum>c<k. (if a = c then x else 0) * g c) = (\<Sum>c<k. if c = a then x * g c else 0)"
    by (intro sum.cong) auto
  also have "\<dots> = x * g a" using assms by simp
  finally show ?thesis .
qed

text \<open>Line 59: the sum of the weights of the pairs whose ranks agree.\<close>

lemma fit_sum:
  assumes "shape B = (n, p)" and "\<And>i. i < n \<Longrightarrow> rs i < k"
  shows "data_sum (multiply (membership_matrix n k rs) (dot_mat B (membership_matrix p k rf)))
           = (\<Sum>i<n. \<Sum>j<p. if rs i = rf j then entry B i j else 0)"
proof -
  have "data_sum (multiply (membership_matrix n k rs) (dot_mat B (membership_matrix p k rf)))
          = (\<Sum>i<n. \<Sum>c<k. (if rs i = c then 1 else 0)
                * (\<Sum>j<p. entry B i j * (if rf j = c then 1 else 0)))"
    using assms(1)
    by (simp add: data_sum_def multiply_def dot_mat_def membership_matrix_def sum_list_upt)
  also have "\<dots> = (\<Sum>i<n. \<Sum>j<p. entry B i j * (if rf j = rs i then 1 else 0))"
    by (rule sum.cong [OF refl]) (simp add: delta_sum assms(2))
  also have "\<dots> = (\<Sum>i<n. \<Sum>j<p. if rs i = rf j then entry B i j else 0)"
    by (intro sum.cong refl) auto
  finally show ?thesis .
qed

lemma vdot_map:
  "vdot (map a [0..<k]) (map b [0..<k]) = (\<Sum>c<k. a c * b c)"
  by (simp add: vdot_def zip_map_map zip_same_conv_map comp_def sum_list_upt)

text \<open>Line 60: the sum of the products of the weights of the pairs whose ranks agree.\<close>

lemma div_sum:
  assumes "length dv = n" and "length fv = p" and "\<And>i. i < n \<Longrightarrow> rs i < k"
  shows "vdot (dot_vec (mat_T (membership_matrix n k rs)) dv) (dot_vec (mat_T (membership_matrix p k rf)) fv)
           = (\<Sum>i<n. \<Sum>j<p. if rs i = rf j then dv ! i * fv ! j else 0)"
proof -
  have "vdot (dot_vec (mat_T (membership_matrix n k rs)) dv) (dot_vec (mat_T (membership_matrix p k rf)) fv)
          = (\<Sum>c<k. (\<Sum>i<n. (if rs i = c then 1 else 0) * dv ! i)
                    * (\<Sum>j<p. (if rf j = c then 1 else 0) * fv ! j))"
    by (simp add: dot_vec_def mat_T_def membership_matrix_def vdot_map sum_list_upt)
  also have "\<dots> = (\<Sum>c<k. \<Sum>i<n. \<Sum>j<p.
                     (if rs i = c then 1 else 0) * ((if rf j = c then 1 else 0) * (dv ! i * fv ! j)))"
    by (simp add: sum_product algebra_simps)
  also have "\<dots> = (\<Sum>i<n. \<Sum>c<k. \<Sum>j<p.
                     (if rs i = c then 1 else 0) * ((if rf j = c then 1 else 0) * (dv ! i * fv ! j)))"
    by (rule sum.swap)
  also have "\<dots> = (\<Sum>i<n. \<Sum>c<k. (if rs i = c then 1 else 0)
                     * (\<Sum>j<p. (if rf j = c then 1 else 0) * (dv ! i * fv ! j)))"
    by (simp add: sum_distrib_left)
  also have "\<dots> = (\<Sum>i<n. \<Sum>j<p. (if rf j = rs i then 1 else 0) * (dv ! i * fv ! j))"
    by (rule sum.cong [OF refl]) (simp add: delta_sum assms(3))
  also have "\<dots> = (\<Sum>i<n. \<Sum>j<p. if rs i = rf j then dv ! i * fv ! j else 0)"
    by (intro sum.cong refl) auto
  finally show ?thesis .
qed

lemma dot_vec_ones:
  assumes "shape B = (n, p)" and "i < n"
  shows "dot_vec B (ones p) ! i = (\<Sum>j<p. entry B i j)"
  using assms by (simp add: dot_vec_def ones_def sum_list_upt)

lemma dot_vec_T_ones:
  assumes "shape B = (n, p)" and "j < p"
  shows "dot_vec (mat_T B) (ones n) ! j = (\<Sum>i<n. entry B i j)"
  using assms by (simp add: dot_vec_def mat_T_def ones_def sum_list_upt)

text \<open>
  On a sparse biadjacency with one label for each sample and for each feature, the
  function returns the value of the formula.
\<close>

lemma bimodularity_sparse:
  assumes B: "B = CsrMatrix m \<or> B = SpMatrix m"
    and shp: "shape m = (n, p)"
    and ls: "length sample_labels = n" and lf: "length feature_labels = p"
  shows "bimodularity B sample_labels feature_labels resolution
           = Inr (rank_delta_bimodularity m sample_labels feature_labels resolution)"
proof -
  define k where "k = max (card (set sample_labels)) (card (set feature_labels))"
  define rs where "rs = (\<lambda>i. label_rank sample_labels (sample_labels ! i))"
  define rf where "rf = (\<lambda>j. label_rank feature_labels (feature_labels ! j))"
  define w where "w = data_sum m"
  define dv where "dv = map (\<lambda>x. x / w) (dot_vec m (ones p))"
  define fv where "fv = map (\<lambda>x. x / w) (dot_vec (mat_T m) (ones n))"
  have S: "coo_matrix (ones n) (arange n) (snd (np_unique sample_labels)) (Some (n, k))
             = Inr (membership_matrix n k rs)"
    unfolding rs_def by (rule membership_given [OF ls]) (simp add: k_def)
  have F: "coo_matrix (ones p) (arange p) (snd (np_unique feature_labels)) (Some (p, k))
             = Inr (membership_matrix p k rf)"
    unfolding rf_def by (rule membership_given [OF lf]) (simp add: k_def)
  have rs_less: "rs i < k" if "i < n" for i
  proof -
    from that ls have "sample_labels ! i \<in> set sample_labels" by simp
    then have "rs i < card (set sample_labels)" unfolding rs_def by (rule label_rank_less)
    then show ?thesis by (simp add: k_def)
  qed
  have ldv: "length dv = n" and lfv: "length fv = p"
    using shp by (simp_all add: dv_def fv_def length_dot_vec mat_T_def)
  have dvi: "dv ! i = (\<Sum>j<p. entry m i j) / w" if "i < n" for i
    using that shp by (simp add: dv_def length_dot_vec dot_vec_ones [OF shp])
  have fvj: "fv ! j = (\<Sum>i<n. entry m i j) / w" if "j < p" for j
    using that lfv by (simp add: fv_def dot_vec_T_ones [OF shp])
  have "bimodularity B sample_labels feature_labels resolution
          = Inr (data_sum (multiply (membership_matrix n k rs) (dot_mat m (membership_matrix p k rf))) / w
                 - resolution * vdot (dot_vec (mat_T (membership_matrix n k rs)) dv)
                                     (dot_vec (mat_T (membership_matrix p k rf)) fv))"
    using B shp S F
    by (auto simp: bimodularity_def Let_def card_np_unique k_def w_def dv_def fv_def)
  also have "data_sum (multiply (membership_matrix n k rs) (dot_mat m (membership_matrix p k rf)))
               = (\<Sum>i<n. \<Sum>j<p. if rs i = rf j then entry m i j else 0)"
    by (rule fit_sum [OF shp rs_less])
  also have "vdot (dot_vec (mat_T (membership_matrix n k rs)) dv) (dot_vec (mat_T (membership_matrix p k rf)) fv)
               = (\<Sum>i<n. \<Sum>j<p. if rs i = rf j then dv ! i * fv ! j else 0)"
    by (rule div_sum [OF ldv lfv rs_less])
  also have "(\<Sum>i<n. \<Sum>j<p. if rs i = rf j then entry m i j else 0) / w
               - resolution * (\<Sum>i<n. \<Sum>j<p. if rs i = rf j then dv ! i * fv ! j else 0)
             = (\<Sum>i<n. \<Sum>j<p. if rs i = rf j
                   then entry m i j / w - resolution * (dv ! i * fv ! j) else 0)"
    by (simp add: sum_divide_distrib sum_distrib_left sum_subtractf [symmetric] if_distrib
        cong: if_cong)
  also have "\<dots> = rank_delta_bimodularity m sample_labels feature_labels resolution"
    unfolding rank_delta_bimodularity_def Let_def sum_list_upt shp fst_conv snd_conv
    by (intro sum.cong refl) (simp add: dvi fvj rs_def rf_def w_def)
  finally show ?thesis .
qed

text \<open>
  The function uses the labels only through the inverse indices of \<^verbatim>\<open>np.unique\<close>,
  so an order-preserving injective renaming of either side leaves the result (a value or
  an error) unchanged, for every kind of biadjacency and every length of the label arrays.
\<close>

lemma bimodularity_relabel:
  assumes "mono_on (set sample_labels) f" and "inj_on f (set sample_labels)"
    and "mono_on (set feature_labels) g" and "inj_on g (set feature_labels)"
  shows "bimodularity B (map f sample_labels) (map g feature_labels) resolution
         = bimodularity B sample_labels feature_labels resolution"
  by (simp only: bimodularity_def np_unique_relabel [OF assms(1,2)]
      np_unique_relabel [OF assms(3,4)])

lemmas rank_eval =
  rank_delta_bimodularity_def label_rank_def Let_def data_sum_def of_rows_def numeral_2_eq_2

subsection \<open>Errors of \<^verbatim>\<open>modularity\<close>\<close>

text \<open>
  C6, as the code has it. An adjacency that is neither a numpy array nor a scipy sparse
  matrix raises \<^verbatim>\<open>TypeError\<close> whatever the partition is: this test comes first. A
  partition that is neither a dictionary nor a numpy array raises \<^verbatim>\<open>TypeError\<close> when
  the adjacency is a square matrix; when the adjacency is a matrix that is not square,
  the shape test of line 100 comes before the type test of the partition and the call
  raises \<^verbatim>\<open>ValueError\<close>. In each case the call returns the error and no value.
\<close>

theorem modularity_type_error:
  "modularity NotArrayLike partition' resolution directed = Inl TypeError \<and>
   modularity (ArrayLike a) NotPartition resolution directed =
     (if fst (shape (csr_matrix a)) = snd (shape (csr_matrix a)) then Inl TypeError
      else Inl ValueError)"
  by (simp add: modularity_def Let_def get_labels_def)

text \<open>
  C6, as the claim states it, fails: for the \<open>1 \<times> 2\<close> array \<^verbatim>\<open>np.array([[1., 1.]])\<close>
  and a partition that is neither a dictionary nor an array, the call raises
  \<^verbatim>\<open>ValueError\<close>, not \<^verbatim>\<open>TypeError\<close>.
\<close>

theorem modularity_partition_type_counterexample:
  "modularity (ArrayLike (NdArray (of_rows [[1, 1]]))) NotPartition 1 False = Inl ValueError"
  by (simp add: modularity_def Let_def of_rows_def)

text \<open>
  C7: for every adjacency matrix with \<open>n\<close> rows and \<open>m\<close> columns, \<open>n \<noteq> m\<close>, of any of
  the three recognised kinds, \<^verbatim>\<open>modularity\<close> raises \<^verbatim>\<open>ValueError\<close> (the shape error
  of line 101) and returns no value, whatever the partition, the resolution and the
  \<^verbatim>\<open>directed\<close> flag are.
\<close>

theorem modularity_non_square:
  assumes "shape (csr_matrix a) = (n, m)" and "n \<noteq> m"
  shows "modularity (ArrayLike a) partition' resolution directed = Inl ValueError"
  using assms by (simp add: modularity_def Let_def)

theorem modularity_non_square_witness:
  "shape (csr_matrix (CsrMatrix (of_rows [[1, 2, 0], [0, 1, 1]]))) = (2, 3) \<and> (2::nat) \<noteq> 3 \<and>
   modularity (ArrayLike (CsrMatrix (of_rows [[1, 2, 0], [0, 1, 1]]))) (LabelArray [0, 1]) 1 False
     = Inl ValueError"
proof -
  have s: "shape (csr_matrix (CsrMatrix (of_rows [[1, 2, 0], [0, 1, 1]]))) = (2, 3)"
    by (simp add: of_rows_def)
  have d: "(2::nat) \<noteq> 3" by simp
  from s d modularity_non_square [OF s d] show ?thesis by blast
qed

subsection \<open>Dense adjacency and the \<^verbatim>\<open>directed\<close> flag\<close>

text \<open>
  C9, as the code has it. For every square dense \<^verbatim>\<open>numpy.ndarray\<close> adjacency with at
  least one node and every valid partition (a dictionary or an array that gives each of
  the \<open>n\<close> nodes a non-negative label), \<^verbatim>\<open>modularity\<close> with \<^verbatim>\<open>directed=True\<close>
  hands the unconverted array to \<^verbatim>\<open>bimodularity\<close> and fails with
  \<^verbatim>\<open>AttributeError\<close>, whereas with \<^verbatim>\<open>directed=False\<close> it returns a value, the
  same as for the sparse form of the array.
\<close>

theorem modularity_dense_directed:
  assumes "shape m = (n, n)" and "0 < n"
    and "get_labels partition' n = Inr labels"
    and "length labels = n" and "list_all (\<lambda>c. 0 \<le> c) labels"
  shows "modularity (ArrayLike (NdArray m)) partition' resolution True = Inl AttributeError \<and>
         (\<exists>q. modularity (ArrayLike (NdArray m)) partition' resolution False = Inr q) \<and>
         modularity (ArrayLike (NdArray m)) partition' resolution False
           = modularity (ArrayLike (CsrMatrix m)) partition' resolution False"
proof -
  have "modularity (ArrayLike (NdArray m)) partition' resolution True = Inl AttributeError"
    using assms(1,3) by (simp add: modularity_def Let_def bimodularity_def)
  moreover have "\<exists>q. modularity (ArrayLike (NdArray m)) partition' resolution False = Inr q"
    using assms(1,3) undirected_modularity_returns [OF assms(2,4,5)]
    by (simp add: modularity_def Let_def)
  moreover have "modularity (ArrayLike (NdArray m)) partition' resolution False
           = modularity (ArrayLike (CsrMatrix m)) partition' resolution False"
    by (simp add: modularity_def Let_def split: sum.splits)
  ultimately show ?thesis by blast
qed

theorem modularity_dense_directed_witness:
  "shape (of_rows [[0, 1], [1, 0]]) = (2, 2) \<and> (0::nat) < 2 \<and>
   get_labels (Dict [0 \<mapsto> 0, 1 \<mapsto> 1]) 2 = Inr [0, 1] \<and>
   length [0::int, 1] = 2 \<and> list_all (\<lambda>c. 0 \<le> c) [0::int, 1] \<and>
   modularity (ArrayLike (NdArray (of_rows [[0, 1], [1, 0]]))) (Dict [0 \<mapsto> 0, 1 \<mapsto> 1]) 1 True
     = Inl AttributeError \<and>
   modularity (ArrayLike (NdArray (of_rows [[0, 1], [1, 0]]))) (Dict [0 \<mapsto> 0, 1 \<mapsto> 1]) 1 False
     = Inr (- 1 / 2)"
proof -
  have s: "shape (of_rows [[0, 1], [1, 0]]) = (2, 2)" by (simp add: of_rows_def)
  have n: "(0::nat) < 2" by simp
  have g: "get_labels (Dict [0 \<mapsto> 0, 1 \<mapsto> 1]) 2 = Inr [0, 1]"
    by (simp add: get_labels_def numeral_2_eq_2)
  have l: "length [0::int, 1] = 2" by simp
  have p: "list_all (\<lambda>c. 0 \<le> c) [0::int, 1]" by simp
  have v: "modularity (ArrayLike (NdArray (of_rows [[0, 1], [1, 0]])))
             (Dict [0 \<mapsto> 0, 1 \<mapsto> 1]) 1 False = Inr (- 1 / 2)"
    by (simp add: metrics_eval)
  from modularity_dense_directed [OF s n g l p, of 1] s n g l p v show ?thesis by blast
qed

text \<open>
  C9, as the claim states it, fails for the graph without nodes: for the \<open>0 \<times> 0\<close>
  array and the empty label array, which is a valid partition of no node,
  \<^verbatim>\<open>directed=False\<close> returns no value. scipy cannot infer the shape of the
  membership matrix from empty index arrays and raises \<^verbatim>\<open>ValueError\<close>.
\<close>

theorem modularity_dense_empty_counterexample:
  "shape (of_rows []) = (0, 0) \<and> get_labels (LabelArray []) 0 = Inr [] \<and>
   modularity (ArrayLike (NdArray (of_rows []))) (LabelArray []) 1 False = Inl ValueError"
  by (simp add: modularity_def Let_def of_rows_def get_labels_def undirected_modularity_def
      coo_matrix_def ones_def arange_def)

subsection \<open>\<^verbatim>\<open>bimodularity\<close> and the names of the labels\<close>

text \<open>
  C10: \<^verbatim>\<open>bimodularity\<close> relabels the sample labels and the feature labels
  independently: the labels it compares (the inverse indices of \<^verbatim>\<open>np.unique\<close>, lines
  50--51) are, on each side, the ranks of the labels among the distinct labels of that
  side, which fill the contiguous range \<open>0, ..., k - 1\<close> for \<open>k\<close> distinct labels. For
  every sparse biadjacency matrix with one label for each sample and for each feature,
  the returned value is the formula of the docstring with the Kronecker symbol between
  these ranks, not between the label values. So for every relabelling \<open>f\<close> of the sample
  labels and every relabelling \<open>g\<close> of the feature labels, each order-preserving and
  injective on the labels in use and chosen separately, the returned value is unchanged.
\<close>

theorem bimodularity_rank_delta:
  assumes "B = CsrMatrix m \<or> B = SpMatrix m" and "shape m = (n, p)"
    and "length sample_labels = n" and "length feature_labels = p"
    and "mono_on (set sample_labels) f" and "inj_on f (set sample_labels)"
    and "mono_on (set feature_labels) g" and "inj_on g (set feature_labels)"
  shows "snd (np_unique sample_labels)
           = map (\<lambda>c. int (label_rank sample_labels c)) sample_labels \<and>
         snd (np_unique feature_labels)
           = map (\<lambda>c. int (label_rank feature_labels c)) feature_labels \<and>
         label_rank sample_labels ` set sample_labels = {0..<card (set sample_labels)} \<and>
         label_rank feature_labels ` set feature_labels = {0..<card (set feature_labels)} \<and>
         bimodularity B sample_labels feature_labels resolution
           = Inr (rank_delta_bimodularity m sample_labels feature_labels resolution) \<and>
         bimodularity B (map f sample_labels) (map g feature_labels) resolution
           = bimodularity B sample_labels feature_labels resolution"
  using bimodularity_sparse [OF assms(1-4)] bimodularity_relabel [OF assms(5-8)]
  by (simp add: np_unique_label_rank label_rank_contiguous)

text \<open>
  On the biadjacency \<open>[[2, 0], [1, 1]]\<close> the sample labels \<open>[0, 1]\<close> with the feature
  labels \<open>[1, 0]\<close> score \<open>- 1 / 4\<close>: sample 0 is matched with feature 1 and sample 1
  with feature 0. Renamed to \<open>[5, 6]\<close> and \<open>[7, 6]\<close> they score the same, although
  now sample 1 and feature 1 carry the same label value 6 and no other pair does:
  matching by value would give \<open>1 / 8\<close>.
\<close>

theorem bimodularity_rank_delta_witness:
  "(CsrMatrix (of_rows [[2, 0], [1, 1]]) = CsrMatrix (of_rows [[2, 0], [1, 1]])
      \<or> CsrMatrix (of_rows [[2, 0], [1, 1]]) = SpMatrix (of_rows [[2, 0], [1, 1]])) \<and>
   shape (of_rows [[2, 0], [1, 1]]) = (2, 2) \<and>
   length [0::int, 1] = 2 \<and> length [1::int, 0] = 2 \<and>
   mono_on (set [0, 1]) ((+) (5::int)) \<and> inj_on ((+) (5::int)) (set [0, 1]) \<and>
   mono_on (set [1, 0]) ((+) (6::int)) \<and> inj_on ((+) (6::int)) (set [1, 0]) \<and>
   bimodularity (CsrMatrix (of_rows [[2, 0], [1, 1]])) [0, 1] [1, 0] 1 = Inr (- 1 / 4) \<and>
   bimodularity (CsrMatrix (of_rows [[2, 0], [1, 1]])) (map ((+) 5) [0, 1]) (map ((+) 6) [1, 0]) 1
     = Inr (- 1 / 4)"
proof -
  have b: "CsrMatrix (of_rows [[2, 0], [1, 1]]) = CsrMatrix (of_rows [[2, 0], [1, 1]])
      \<or> CsrMatrix (of_rows [[2, 0], [1, 1]]) = SpMatrix (of_rows [[2, 0], [1, 1]])" by simp
  have s: "shape (of_rows [[2, 0], [1, 1]]) = (2, 2)" by (simp add: of_rows_def)
  have l1: "length [0::int, 1] = 2" and l2: "length [1::int, 0] = 2" by simp_all
  have m1: "mono_on (set [0, 1]) ((+) (5::int))" by (simp add: mono_on_def)
  have i1: "inj_on ((+) (5::int)) (set [0, 1])" by simp
  have m2: "mono_on (set [1, 0]) ((+) (6::int))" by (simp add: mono_on_def)
  have i2: "inj_on ((+) (6::int)) (set [1, 0])" by simp
  have v: "rank_delta_bimodularity (of_rows [[2, 0], [1, 1]]) [0, 1] [1, 0] 1 = - 1 / 4"
    by (simp add: rank_eval)
  from bimodularity_rank_delta [OF b s l1 l2 m1 i1 m2 i2, of 1] v b s l1 l2 m1 i1 m2 i2
  show ?thesis by simp
qed

text \<open>The function itself, evaluated on the renamed labels, gives the same value.\<close>

lemma bimodularity_renamed_example:
  "bimodularity (CsrMatrix (of_rows [[2, 0], [1, 1]])) [5, 6] [7, 6] 1 = Inr (- 1 / 4)"
  by (simp add: metrics_eval)

section \<open>Properties of the embedding engine\<close>

lemma step_shape: "nd_shape (position (step ph engine adjacency s)) = nd_shape (position s)"
  by (simp add: step_def Let_def)

lemma simulate_shape:
  "nd_shape (position (simulate k ph engine adjacency s)) = nd_shape (position s)"
  by (induction k arbitrary: s) (simp_all add: step_shape)

text \<open>
  C2: for every option combination that the constructor accepts (all but Barnes-Hut with
  a dimension other than 2), every physics, every graph with \<open>n\<close> nodes and every
  iteration count, \<^verbatim>\<open>fit_transform\<close>, called without \<^verbatim>\<open>pos_init\<close> or with one of the
  right shape, returns a position array of shape \<open>(n, n_components)\<close>.
\<close>

theorem fit_transform_shape:
  assumes "\<not> (barnes_hut options \<and> n_components options \<noteq> 2)"
    and "case pos_init of None \<Rightarrow> True
         | Some p \<Rightarrow> nd_shape p = [fst (shape adjacency), n_components options]"
  shows "\<exists>engine pos. ForceAtlas2 options = Inr engine \<and>
           fit_transform engine ph adjacency pos_init n_iter = Inr pos \<and>
           nd_shape pos = [fst (shape adjacency), n_components options]"
proof -
  from assms(1) have "ForceAtlas2 options = Inr options" by (simp add: ForceAtlas2_def)
  moreover from assms(2)
  have "\<exists>pos. fit_transform options ph adjacency pos_init n_iter = Inr pos \<and>
           nd_shape pos = [fst (shape adjacency), n_components options]"
    by (cases pos_init) (simp_all add: fit_transform_def fit_def Let_def simulate_shape)
  ultimately show ?thesis by blast
qed

theorem fit_transform_shape_witness:
  "\<not> (barnes_hut (default_options\<lparr>barnes_hut := True\<rparr>)
        \<and> n_components (default_options\<lparr>barnes_hut := True\<rparr>) \<noteq> 2) \<and>
   (\<exists>pos. fit_transform (default_options\<lparr>barnes_hut := True\<rparr>) still_physics
             (of_rows [[0, 1, 0], [1, 0, 1], [0, 1, 0]]) None 50 = Inr pos \<and>
          nd_shape pos = [3, 2])"
proof -
  have h: "\<not> (barnes_hut (default_options\<lparr>barnes_hut := True\<rparr>)
        \<and> n_components (default_options\<lparr>barnes_hut := True\<rparr>) \<noteq> 2)"
    by (simp add: default_options_def)
  have c: "case None :: ndarray option of None \<Rightarrow> True
     | Some p \<Rightarrow> nd_shape p = [fst (shape (of_rows [[0, 1, 0], [1, 0, 1], [0, 1, 0]])),
         n_components (default_options\<lparr>barnes_hut := True\<rparr>)]"
    by simp
  from fit_transform_shape [OF h c, of still_physics 50] h show ?thesis
    by (auto simp: ForceAtlas2_def of_rows_def default_options_def)
qed

text \<open>
  C3: whatever the other options are, constructing the engine with \<^verbatim>\<open>n_components=3\<close>
  and \<^verbatim>\<open>barnes_hut=True\<close> fails with the configuration error, at construction.
\<close>

theorem ForceAtlas2_conflict:
  "ForceAtlas2 (options\<lparr>n_components := 3, barnes_hut := True\<rparr>) = Inl ConfigurationConflictError"
  by (simp add: ForceAtlas2_def)

theorem ForceAtlas2_conflict_witness:
  "ForceAtlas2 (default_options\<lparr>n_components := 3, barnes_hut := True\<rparr>)
     = Inl ConfigurationConflictError"
  by (rule ForceAtlas2_conflict)

text \<open>
  C4: for every graph with \<open>n_nodes\<close> nodes and every \<^verbatim>\<open>pos_init\<close> array whose shape
  is not \<open>(n_nodes, n_components)\<close>, \<^verbatim>\<open>fit\<close> fails with the shape error, whatever the
  iteration count and the options are.
\<close>

theorem fit_pos_init_mismatch:
  assumes "nd_shape pos_init \<noteq> [fst (shape adjacency), n_components engine]"
  shows "fit engine ph adjacency (Some pos_init) n_iter = Inl InputShapeError"
  using assms by (simp add: fit_def Let_def)

theorem fit_pos_init_mismatch_witness:
  "nd_shape (np_ones [5, 7])
     \<noteq> [fst (shape (of_rows [[0, 1], [1, 0]])), n_components default_options] \<and>
   fit default_options still_physics (of_rows [[0, 1], [1, 0]]) (Some (np_ones [5, 7])) 1
     = Inl InputShapeError"
proof -
  have h: "nd_shape (np_ones [5, 7])
             \<noteq> [fst (shape (of_rows [[0, 1], [1, 0]])), n_components default_options]"
    by (simp add: np_ones_def of_rows_def default_options_def)
  from h fit_pos_init_mismatch [OF h] show ?thesis by blast
qed

end
